theory Spec2Isabelle
  imports Main
begin

section \<open>Flight price endpoint (main.py)\<close>

text \<open>
  A shallow embedding of \<^verbatim>\<open>main.py\<close>: the cached Amadeus credential, the token
  refresh, and the handler \<^verbatim>\<open>get_flight_price\<close>. The two module globals
  \<^verbatim>\<open>token\<close> and \<^verbatim>\<open>token_expiry\<close> are a record passed through the handler; the two
  outbound HTTP calls are answered by a \<open>world\<close> value and logged as a list of events;
  every \<^verbatim>\<open>raise\<close> is a value of the type \<open>failure\<close>.

  A character is a code point below 256, so a string is a Python \<^verbatim>\<open>str\<close> of such code
  points. Among them the decimal digits of \<^verbatim>\<open>\d\<close> and \<^verbatim>\<open>int\<close> are \<open>0\<close> to \<open>9\<close> only, and
  no character other than the letter itself and its capital matches a letter of
  \<open>days\<close> under \<^verbatim>\<open>re.IGNORECASE\<close>. The provider's JSON is taken to have the shape the code
  indexes into (each offer has \<^verbatim>\<open>price.grandTotal\<close> and a list \<^verbatim>\<open>itineraries\<close>, and so
  on), so a missing key is excluded by the types; what stays possible is a price that
  \<^verbatim>\<open>float\<close> rejects and an offer whose list of itineraries is empty.
\<close>

subsection \<open>Characters and numerals\<close>

definition is_digit :: "char \<Rightarrow> bool" where
  "is_digit c = (c \<in> set ''0123456789'')"

text \<open>The code points below 256 that \<^verbatim>\<open>\s\<close> matches in a Python 3 \<^verbatim>\<open>str\<close> pattern:
  tab, line feed, vertical tab, form feed, carriage return, the four separators
  0x1C to 0x1F, the space, the next-line control 0x85 and the no-break space 0xA0.\<close>

definition is_space :: "char \<Rightarrow> bool" where
  "is_space c = (of_char c \<in> set [9, 10, 11, 12, 13, 28, 29, 30, 31, 32, 133, 160 :: nat])"

definition digit_val :: "char \<Rightarrow> nat" where
  "digit_val c = of_char c - 48"

text \<open>\<^verbatim>\<open>int(s)\<close> on a string of decimal digits: its value, when the string has no
  more digits than the limit of the interpreter (4300, leading zeros counted); beyond
  the limit \<^verbatim>\<open>int\<close> raises \<^verbatim>\<open>ValueError\<close>.\<close>

definition int_of_digits :: "string \<Rightarrow> nat" where
  "int_of_digits s = foldl (\<lambda>acc c. 10 * acc + digit_val c) 0 s"

definition MAX_STR_DIGITS :: nat where
  "MAX_STR_DIGITS = 4300"

definition py_int :: "string \<Rightarrow> nat option" where
  "py_int s = (if length s > MAX_STR_DIGITS then None else Some (int_of_digits s))"

subsection \<open>The duration pattern of the code\<close>

text \<open>
  \<^verbatim>\<open>re.match(r"(\d+)\s*days", duration, re.IGNORECASE)\<close>: the match is anchored at the
  start of the string only. \<^verbatim>\<open>\d+\<close> is greedy and what follows cannot start with a
  digit, so group 1 is the longest prefix of digits; \<^verbatim>\<open>\s*\<close> then skips all
  white space, and the next four characters must read \<open>days\<close> in any case. Anything may
  follow. The result is group 1, or \<open>None\<close> when there is no match.
\<close>

definition ci_eq :: "char \<Rightarrow> char \<Rightarrow> char \<Rightarrow> bool" where
  "ci_eq c lo up = (c = lo \<or> c = up)"

definition re_match_days :: "string \<Rightarrow> string option" where
  "re_match_days s =
     (let g = takeWhile is_digit s;
          r = dropWhile is_space (dropWhile is_digit s)
      in if g = [] then None
         else (case r of
                 c1 # c2 # c3 # c4 # _ \<Rightarrow>
                   if ci_eq c1 CHR ''d'' CHR ''D'' \<and> ci_eq c2 CHR ''a'' CHR ''A'' \<and>
                      ci_eq c3 CHR ''y'' CHR ''Y'' \<and> ci_eq c4 CHR ''s'' CHR ''S''
                   then Some g else None
               | _ \<Rightarrow> None))"

subsection \<open>The duration pattern of the specification\<close>


subsection \<open>Dates\<close>

text \<open>
  \<^verbatim>\<open>datetime.date\<close> with the arithmetic of the standard library: a date is a year
  (1 to 9999), a month and a day; \<^verbatim>\<open>date + timedelta(days=n)\<close> goes through the
  proleptic Gregorian ordinal (\<^verbatim>\<open>_ymd2ord\<close>, \<^verbatim>\<open>_ord2ymd\<close>), and raises
  \<^verbatim>\<open>OverflowError\<close> beyond 9999-12-31, whose ordinal is 3652059.
\<close>

record date =
  year :: nat
  month :: nat
  day :: nat

definition is_leap :: "nat \<Rightarrow> bool" where
  "is_leap y = (y mod 4 = 0 \<and> (y mod 100 \<noteq> 0 \<or> y mod 400 = 0))"

definition DAYS_IN_MONTH :: "nat list" where
  "DAYS_IN_MONTH = [0, 31, 28, 31, 30, 31, 30, 31, 31, 30, 31, 30, 31]"

definition DAYS_BEFORE_MONTH :: "nat list" where
  "DAYS_BEFORE_MONTH = [0, 0, 31, 59, 90, 120, 151, 181, 212, 243, 273, 304, 334]"

definition days_in_month :: "nat \<Rightarrow> nat \<Rightarrow> nat" where
  "days_in_month y m = (if m = 2 \<and> is_leap y then 29 else DAYS_IN_MONTH ! m)"

definition days_before_year :: "nat \<Rightarrow> nat" where
  "days_before_year y =
     (let y1 = y - 1 in y1 * 365 + y1 div 4 - y1 div 100 + y1 div 400)"

definition days_before_month :: "nat \<Rightarrow> nat \<Rightarrow> nat" where
  "days_before_month y m =
     DAYS_BEFORE_MONTH ! m + (if m > 2 \<and> is_leap y then 1 else 0)"

definition ymd2ord :: "date \<Rightarrow> nat" where
  "ymd2ord d = days_before_year (year d) + days_before_month (year d) (month d) + day d"

definition DI400Y :: nat where "DI400Y = 146097"
definition DI100Y :: nat where "DI100Y = 36524"
definition DI4Y :: nat where "DI4Y = 1461"

text \<open>The tail of \<^verbatim>\<open>_ord2ymd\<close>: from the day \<open>n\<close> of the year, counted from 0, the
  month (an estimate that is corrected when too large) and the number of days of the
  year that precede that month.\<close>

definition month_of :: "nat \<Rightarrow> bool \<Rightarrow> nat" where
  "month_of n leapyear =
     (let m = (n + 50) div 32;
          preceding = DAYS_BEFORE_MONTH ! m + (if m > 2 \<and> leapyear then 1 else 0)
      in if preceding > n then m - 1 else m)"

definition preceding_of :: "nat \<Rightarrow> bool \<Rightarrow> nat" where
  "preceding_of n leapyear =
     (let m = (n + 50) div 32;
          preceding = DAYS_BEFORE_MONTH ! m + (if m > 2 \<and> leapyear then 1 else 0)
      in if preceding > n
         then preceding - (DAYS_IN_MONTH ! (m - 1) + (if m - 1 = 2 \<and> leapyear then 1 else 0))
         else preceding)"

definition ord2ymd :: "nat \<Rightarrow> date" where
  "ord2ymd n0 =
     (let n = n0 - 1;
          n400 = n div DI400Y; n = n mod DI400Y;
          y = n400 * 400 + 1;
          n100 = n div DI100Y; n = n mod DI100Y;
          n4 = n div DI4Y; n = n mod DI4Y;
          n1 = n div 365; n = n mod 365;
          y = y + n100 * 100 + n4 * 4 + n1
      in if n1 = 4 \<or> n100 = 4 then \<lparr>year = y - 1, month = 12, day = 31\<rparr>
         else
           (let leapyear = (n1 = 3 \<and> (n4 \<noteq> 24 \<or> n100 = 3))
            in \<lparr>year = y, month = month_of n leapyear,
                day = n - preceding_of n leapyear + 1\<rparr>))"

definition MAXORDINAL :: nat where "MAXORDINAL = 3652059"

text \<open>\<^verbatim>\<open>dep_date_obj + timedelta(days=days_to_add)\<close>; \<open>None\<close> is the \<^verbatim>\<open>OverflowError\<close>
  (of \<^verbatim>\<open>timedelta\<close> above 999999999 days, or of the sum beyond the last date).\<close>

definition date_add_days :: "date \<Rightarrow> nat \<Rightarrow> date option" where
  "date_add_days d n =
     (let o' = ymd2ord d + n
      in if 0 < o' \<and> o' \<le> MAXORDINAL then Some (ord2ymd o') else None)"

text \<open>
  \<^verbatim>\<open>datetime.strptime(s, "%Y-%m-%d").date()\<close>. The library matches the regular
  expression \<^verbatim>\<open>(\d\d\d\d)-(1[0-2]|0[1-9]|[1-9])-(3[01]|[12]\d|0[1-9]|[1-9]| [1-9])\<close>
  and rejects unconverted trailing text, then rejects year 0 and a day beyond the
  month's length. Every rejection is a \<^verbatim>\<open>ValueError\<close>, here \<open>None\<close>.
\<close>

definition parse_month :: "string \<Rightarrow> nat option" where
  "parse_month s =
     (case s of
        [a] \<Rightarrow> if is_digit a \<and> a \<noteq> CHR ''0'' then Some (digit_val a) else None
      | [a, b] \<Rightarrow>
          if a = CHR ''1'' \<and> b \<in> set ''012'' then Some (10 + digit_val b)
          else if a = CHR ''0'' \<and> is_digit b \<and> b \<noteq> CHR ''0'' then Some (digit_val b)
          else None
      | _ \<Rightarrow> None)"

definition parse_day :: "string \<Rightarrow> nat option" where
  "parse_day s =
     (case s of
        [a] \<Rightarrow> if is_digit a \<and> a \<noteq> CHR ''0'' then Some (digit_val a) else None
      | [a, b] \<Rightarrow>
          if a = CHR ''3'' \<and> b \<in> set ''01'' then Some (30 + digit_val b)
          else if a \<in> set ''12'' \<and> is_digit b then Some (10 * digit_val a + digit_val b)
          else if a \<in> set ''0 '' \<and> is_digit b \<and> b \<noteq> CHR ''0'' then Some (digit_val b)
          else None
      | _ \<Rightarrow> None)"

definition strptime :: "string \<Rightarrow> date option" where
  "strptime s =
     (let ys = take 4 s; r = drop 4 s
      in if length ys = 4 \<and> list_all is_digit ys \<and> r \<noteq> [] \<and> hd r = CHR ''-''
         then (let r1 = tl r; ms = takeWhile (\<lambda>c. c \<noteq> CHR ''-'') r1;
                   r2 = dropWhile (\<lambda>c. c \<noteq> CHR ''-'') r1
               in if r2 = [] then None
                  else (case (parse_month ms, parse_day (tl r2)) of
                          (Some m, Some d) \<Rightarrow>
                            (let y = int_of_digits ys
                             in if 1 \<le> y \<and> d \<le> days_in_month y m
                                then Some \<lparr>year = y, month = m, day = d\<rparr> else None)
                        | _ \<Rightarrow> None))
         else None)"

text \<open>\<^verbatim>\<open>d.strftime("%Y-%m-%d")\<close> as CPython 3.11 gives it with the C library of
  Linux (glibc): month and day are padded to two digits, the year is written in
  decimal without padding, so a year below 1000 has fewer than four digits.\<close>

definition digit_char :: "nat \<Rightarrow> char" where
  "digit_char n = ''0123456789'' ! (n mod 10)"

definition pad2 :: "nat \<Rightarrow> string" where
  "pad2 n = [digit_char (n div 10), digit_char n]"

definition pad4 :: "nat \<Rightarrow> string" where
  "pad4 n = [digit_char (n div 1000), digit_char (n div 100), digit_char (n div 10), digit_char n]"

fun str_nat :: "nat \<Rightarrow> string" where
  "str_nat n = (if n < 10 then [digit_char n] else str_nat (n div 10) @ [digit_char n])"

declare str_nat.simps [simp del]

definition strftime :: "date \<Rightarrow> string" where
  "strftime d = str_nat (year d) @ ''-'' @ pad2 (month d) @ ''-'' @ pad2 (day d)"


subsection \<open>The provider's data\<close>

text \<open>The parts of a flight offer that the handler reads.\<close>

record endpoint =
  iataCode :: string
  at :: string

record segment =
  carrierCode :: string
  number :: string
  departure :: endpoint
  arrival :: endpoint
  seg_duration :: string

record itinerary =
  itin_duration :: string
  segments :: "segment list"

record offer =
  grandTotal :: string
  itineraries :: "itinerary list"

text \<open>The query parameters of the search call (\<^verbatim>\<open>params\<close>); \<open>returnDate\<close> is
  \<open>None\<close> while the key is absent.\<close>

record params =
  originLocationCode :: string
  destinationLocationCode :: string
  departureDate :: string
  adults :: nat
  currencyCode :: string
  max_offers :: nat
  returnDate :: "string option"

text \<open>
  What \<^verbatim>\<open>response.json()\<close> gives: \<open>NotJson\<close> when the body does not decode, with the
  text of the decoding error; otherwise a JSON object, of which the model keeps the
  value under \<^verbatim>\<open>"data"\<close> (\<open>None\<close> when the key is absent) and the text that
  formatting the object into a message produces.
\<close>

datatype json_body =
  NotJson string
| JsonObject "offer list option" string

text \<open>An HTTP response of the provider: its status code, the text of the
  \<^verbatim>\<open>HTTPError\<close> that \<^verbatim>\<open>raise_for_status\<close> raises for it, and its body.\<close>

record http_response =
  status_code :: nat
  http_error_text :: string
  body :: json_body

text \<open>\<^verbatim>\<open>requests.get\<close> either raises a \<^verbatim>\<open>RequestException\<close> before there is a
  response (a network failure, with its text) or returns a response.\<close>

datatype search_reply =
  ConnectionFailure string
| Response http_response

text \<open>The token call: a \<^verbatim>\<open>RequestException\<close> (network failure or error status), or
  the fields \<^verbatim>\<open>access_token\<close> and \<^verbatim>\<open>expires_in\<close> (seconds) of the reply.\<close>

datatype token_reply =
  TokenRequestException
| TokenData string int

subsection \<open>State, environment, results\<close>

text \<open>Points in time are whole microseconds, the resolution of \<^verbatim>\<open>datetime\<close>.\<close>

type_synonym timestamp = int

record credential =
  token :: string
  token_expiry :: "timestamp option"

text \<open>
  The environment of one request: the clock as \<^verbatim>\<open>is_token_valid\<close> and as
  \<^verbatim>\<open>get_amadeus_token\<close> read it, the answer of the token endpoint, and the answer of
  the search endpoint as a function of the bearer token and the query it is sent.
\<close>

record world =
  now_check :: timestamp
  now_refresh :: timestamp
  token_endpoint :: token_reply
  search_endpoint :: "string \<Rightarrow> params \<Rightarrow> search_reply"

datatype event =
  TokenRequest
| SearchRequest string params

text \<open>The text of an error: a literal of the program, the message that
  \<^verbatim>\<open>datetime.strptime\<close> puts into its \<^verbatim>\<open>ValueError\<close> for the given input, or the
  message of \<^verbatim>\<open>int\<close> about a string of the given number of digits.\<close>

datatype error_text =
  Text string
| StrptimeMessage string
| IntLimitMessage nat

datatype py_exception =
  ValueError
| IndexError
| OverflowError
| UnboundLocalError

text \<open>A request fails with an \<^verbatim>\<open>HTTPException\<close> (status code and detail) or with an
  exception that no handler of the program catches.\<close>

datatype failure =
  HTTPException nat error_text
| Unhandled py_exception

record segment_info =
  airline_code :: string
  flight_number :: string
  departure_airport :: string
  departure_time :: string
  arrival_airport :: string
  arrival_time :: string
  leg_duration :: string

record journey =
  total_duration :: string
  segments_info :: "segment_info list"

record 'p response_data =
  journey_type :: string
  total_price_in_inr :: 'p
  outbound_journey :: journey
  return_journey :: "journey option"
  return_date :: "string option"

datatype 'p result =
  Message string
| Payload "'p response_data"

subsection \<open>Token manager\<close>

definition is_token_valid :: "credential \<Rightarrow> timestamp \<Rightarrow> bool" where
  "is_token_valid c now =
     (token c \<noteq> [] \<and>
      (case token_expiry c of
         None \<Rightarrow> False
       | Some e \<Rightarrow> e > now + 5 * 60 * 1000000))"

definition get_amadeus_token :: "world \<Rightarrow> credential \<Rightarrow> failure + credential" where
  "get_amadeus_token w c =
     (case token_endpoint w of
        TokenRequestException \<Rightarrow>
          Inl (HTTPException 500 (Text ''Failed to authenticate with Amadeus API.''))
      | TokenData access_token expires_in \<Rightarrow>
          Inr (c\<lparr>token := access_token,
                 token_expiry := Some (now_refresh w + expires_in * 1000000)\<rparr>))"

subsection \<open>Offer resolver\<close>

text \<open>
  Python's \<^verbatim>\<open>min(xs, key=k)\<close> on a non-empty list: the first element is the
  candidate, and a later element replaces it only when its key is strictly smaller.
  The key may raise, which is \<open>None\<close>.
\<close>

fun min_loop :: "('a \<Rightarrow> 'k::linorder option) \<Rightarrow> 'a \<Rightarrow> 'k \<Rightarrow> 'a list \<Rightarrow> 'a option" where
  "min_loop key best bv [] = Some best"
| "min_loop key best bv (x # xs) =
     (case key x of
        None \<Rightarrow> None
      | Some v \<Rightarrow> if v < bv then min_loop key x v xs else min_loop key best bv xs)"

definition py_min :: "('a \<Rightarrow> 'k::linorder option) \<Rightarrow> 'a list \<Rightarrow> 'a option" where
  "py_min key xs =
     (case xs of
        [] \<Rightarrow> None
      | x # rest \<Rightarrow> (case key x of None \<Rightarrow> None | Some v \<Rightarrow> min_loop key x v rest))"

text \<open>
  Line 113. The builtin \<^verbatim>\<open>float\<close> is a parameter \<open>pfloat\<close> of the model: it maps the
  text of a price to a number of a linearly ordered type, or raises \<^verbatim>\<open>ValueError\<close>
  (\<open>None\<close>).
\<close>

definition cheapest_offer :: "(string \<Rightarrow> 'p::linorder option) \<Rightarrow> offer list \<Rightarrow> offer option" where
  "cheapest_offer pfloat flight_offers = py_min (\<lambda>x. pfloat (grandTotal x)) flight_offers"

definition parse_segment :: "segment \<Rightarrow> segment_info" where
  "parse_segment sg =
     \<lparr>airline_code = carrierCode sg,
      flight_number = number sg,
      departure_airport = iataCode (departure sg),
      departure_time = at (departure sg),
      arrival_airport = iataCode (arrival sg),
      arrival_time = at (arrival sg),
      leg_duration = seg_duration sg\<rparr>"

definition parse_itinerary_details :: "itinerary \<Rightarrow> journey" where
  "parse_itinerary_details it =
     \<lparr>total_duration = itin_duration it,
      segments_info = map parse_segment (segments it)\<rparr>"

text \<open>The truth value of the optional query parameter \<^verbatim>\<open>duration\<close>: \<^verbatim>\<open>None\<close> and the
  empty string are false.\<close>

definition truthy :: "string option \<Rightarrow> bool" where
  "truthy duration = (case duration of None \<Rightarrow> False | Some d \<Rightarrow> d \<noteq> [])"

text \<open>
  Lines 85 to 97: the return date for the query. \<open>Inr None\<close> when no duration was
  given. A \<^verbatim>\<open>ValueError\<close> (no match, more digits than \<^verbatim>\<open>int\<close> converts, or a departure
  date that \<^verbatim>\<open>strptime\<close> rejects) becomes an \<^verbatim>\<open>HTTPException\<close> 400 with the text of the
  error; the \<^verbatim>\<open>OverflowError\<close> of the date arithmetic is not caught.
\<close>

definition INVALID_DURATION :: string where
  "INVALID_DURATION = ''Invalid duration format. Please use 'X days'.''"

definition compute_return_date :: "string \<Rightarrow> string option \<Rightarrow> failure + string option" where
  "compute_return_date departure_date duration =
     (case duration of
        None \<Rightarrow> Inr None
      | Some d \<Rightarrow>
          if d = [] then Inr None
          else (case re_match_days d of
                  None \<Rightarrow> Inl (HTTPException 400 (Text INVALID_DURATION))
                | Some g \<Rightarrow>
                    (case py_int g of
                       None \<Rightarrow> Inl (HTTPException 400 (IntLimitMessage (length g)))
                     | Some days_to_add \<Rightarrow>
                         (case strptime departure_date of
                            None \<Rightarrow> Inl (HTTPException 400 (StrptimeMessage departure_date))
                          | Some dep_date_obj \<Rightarrow>
                              (case date_add_days dep_date_obj days_to_add of
                                 None \<Rightarrow> Inl (Unhandled OverflowError)
                               | Some return_date_obj \<Rightarrow>
                                   Inr (Some (strftime return_date_obj)))))))"

definition build_params :: "string \<Rightarrow> string \<Rightarrow> string \<Rightarrow> string option \<Rightarrow> params" where
  "build_params origin destination departure_date rd =
     \<lparr>originLocationCode = origin,
      destinationLocationCode = destination,
      departureDate = departure_date,
      adults = 1,
      currencyCode = ''INR'',
      max_offers = 10,
      returnDate = rd\<rparr>"

text \<open>Lines 109 to 152: from the list of offers to the result.\<close>

definition NO_OFFERS :: string where
  "NO_OFFERS = ''No flight offers found for the specified criteria.''"

definition shape_offers ::
  "(string \<Rightarrow> 'p::linorder option) \<Rightarrow> string option \<Rightarrow> params \<Rightarrow> offer list \<Rightarrow> failure + 'p result" where
  "shape_offers pfloat duration ps flight_offers =
     (if flight_offers = [] then Inr (Message NO_OFFERS)
      else (case cheapest_offer pfloat flight_offers of
              None \<Rightarrow> Inl (Unhandled ValueError)
            | Some cheapest \<Rightarrow>
                (case itineraries cheapest of
                   [] \<Rightarrow> Inl (Unhandled IndexError)
                 | it0 # _ \<Rightarrow>
                     (case pfloat (grandTotal cheapest) of
                        None \<Rightarrow> Inl (Unhandled ValueError)
                      | Some price \<Rightarrow>
                          (let response_data =
                                 \<lparr>journey_type = (if truthy duration then ''two-way'' else ''one-way''),
                                  total_price_in_inr = price,
                                  outbound_journey = parse_itinerary_details it0,
                                  return_journey = None,
                                  return_date = None\<rparr>
                           in if truthy duration \<and> length (itineraries cheapest) > 1
                              then Inr (Payload (response_data
                                     \<lparr>return_journey :=
                                        Some (parse_itinerary_details (itineraries cheapest ! 1)),
                                      return_date := returnDate ps\<rparr>))
                              else Inr (Payload response_data))))))"

text \<open>
  Lines 154 to 167, the handler of \<^verbatim>\<open>RequestException\<close>, entered with a response \<open>r\<close>
  bound and the text \<open>e\<close> of the exception: when the body is JSON the detail is chosen
  by the status code and the status code is passed on; when it is not, the
  \<^verbatim>\<open>ValueError\<close> of \<^verbatim>\<open>response.json()\<close> turns into status 500 with the text of \<open>e\<close>.
\<close>

definition classify_error :: "http_response \<Rightarrow> string \<Rightarrow> failure" where
  "classify_error r e =
     (case body r of
        NotJson _ \<Rightarrow> HTTPException 500 (Text e)
      | JsonObject _ error_json \<Rightarrow>
          HTTPException (status_code r)
            (Text (if status_code r = 400
                   then ''Bad request to Amadeus API. Please check your parameters. Error: '' @ error_json
                   else if status_code r = 401
                   then ''Amadeus authentication failed. Please check your API key and secret.''
                   else if status_code r = 404
                   then ''The requested resource was not found on the Amadeus API.''
                   else ''An error occurred while fetching flight data: '' @ e)))"

text \<open>\<^verbatim>\<open>raise_for_status\<close> raises for the status codes 400 to 599.\<close>

definition raises_for_status :: "http_response \<Rightarrow> bool" where
  "raises_for_status r = (400 \<le> status_code r \<and> status_code r < 600)"

text \<open>
  Lines 103 to 167. When \<^verbatim>\<open>requests.get\<close> itself raises, the name \<^verbatim>\<open>response\<close> is
  unbound in the handler, and \<^verbatim>\<open>response.json()\<close> raises \<^verbatim>\<open>UnboundLocalError\<close>, which
  the inner \<^verbatim>\<open>except (ValueError, AttributeError)\<close> does not catch. A body that does not
  decode raises the \<^verbatim>\<open>JSONDecodeError\<close> of \<^verbatim>\<open>requests\<close>, a \<^verbatim>\<open>RequestException\<close>.
\<close>

definition handle_reply ::
  "(string \<Rightarrow> 'p::linorder option) \<Rightarrow> string option \<Rightarrow> params \<Rightarrow> search_reply \<Rightarrow> failure + 'p result" where
  "handle_reply pfloat duration ps reply =
     (case reply of
        ConnectionFailure e \<Rightarrow> Inl (Unhandled UnboundLocalError)
      | Response r \<Rightarrow>
          if raises_for_status r then Inl (classify_error r (http_error_text r))
          else (case body r of
                  NotJson e \<Rightarrow> Inl (classify_error r e)
                | JsonObject data _ \<Rightarrow>
                    shape_offers pfloat duration ps (case data of None \<Rightarrow> [] | Some xs \<Rightarrow> xs)))"

text \<open>The outcome of handling one request: the credential afterwards, the outbound
  calls made, in order, and the response or the failure.\<close>

record 'p outcome =
  cred :: credential
  calls :: "event list"
  answer :: "failure + 'p result"

definition get_flight_price ::
  "(string \<Rightarrow> 'p::linorder option) \<Rightarrow> world \<Rightarrow> credential \<Rightarrow>
   string \<Rightarrow> string \<Rightarrow> string \<Rightarrow> string option \<Rightarrow> 'p outcome" where
  "get_flight_price pfloat w c origin destination departure_date duration =
     (let valid = is_token_valid c (now_check w);
          refreshed = (if valid then Inr c else get_amadeus_token w c);
          log = (if valid then [] else [TokenRequest])
      in case refreshed of
           Inl f \<Rightarrow> \<lparr>cred = c, calls = log, answer = Inl f\<rparr>
         | Inr c' \<Rightarrow>
             (case compute_return_date departure_date duration of
                Inl f \<Rightarrow> \<lparr>cred = c', calls = log, answer = Inl f\<rparr>
              | Inr rd \<Rightarrow>
                  (let ps = build_params origin destination departure_date rd;
                       reply = search_endpoint w (token c') ps
                   in \<lparr>cred = c', calls = log @ [SearchRequest (token c') ps],
                       answer = handle_reply pfloat duration ps reply\<rparr>)))"

text \<open>A stand-in for \<^verbatim>\<open>float\<close> on prices written as whole numbers, for running the
  model on examples.\<close>

definition whole_price :: "string \<Rightarrow> nat option" where
  "whole_price s = (if s \<noteq> [] \<and> list_all is_digit s then Some (int_of_digits s) else None)"

subsection \<open>Sample data\<close>

text \<open>Concrete credentials, offers and providers on which the model is run.\<close>

definition cached :: credential where
  "cached = \<lparr>token = ''abc'', token_expiry = Some (1000 + 10 * 60 * 1000000)\<rparr>"

definition expiring :: credential where
  "expiring = \<lparr>token = ''abc'', token_expiry = Some (1000 + 5 * 60 * 1000000)\<rparr>"

definition no_credential :: credential where
  "no_credential = \<lparr>token = [], token_expiry = None\<rparr>"

definition leg :: "string \<Rightarrow> string \<Rightarrow> string \<Rightarrow> itinerary" where
  "leg a b dt =
     \<lparr>itin_duration = ''PT2H10M'',
      segments = [\<lparr>carrierCode = ''AI'', number = ''865'',
                   departure = \<lparr>iataCode = a, at = dt @ ''T08:00:00''\<rparr>,
                   arrival = \<lparr>iataCode = b, at = dt @ ''T10:10:00''\<rparr>,
                   seg_duration = ''PT2H10M''\<rparr>]\<rparr>"

definition sample_offers :: "offer list" where
  "sample_offers =
     [\<lparr>grandTotal = ''500'', itineraries = [leg ''DEL'' ''BOM'' ''2025-01-10'', leg ''BOM'' ''DEL'' ''2025-01-13'']\<rparr>,
      \<lparr>grandTotal = ''250'', itineraries = [leg ''DEL'' ''BOM'' ''2025-01-10'', leg ''BOM'' ''DEL'' ''2025-01-13'']\<rparr>,
      \<lparr>grandTotal = ''999'', itineraries = [leg ''DEL'' ''BOM'' ''2025-01-10'']\<rparr>]"

definition one_way_offers :: "offer list" where
  "one_way_offers =
     [\<lparr>grandTotal = ''700'', itineraries = [leg ''DEL'' ''BOM'' ''2025-01-10'']\<rparr>]"

definition provider :: "nat \<Rightarrow> string \<Rightarrow> json_body \<Rightarrow> world" where
  "provider st e b =
     \<lparr>now_check = 1000, now_refresh = 2000,
      token_endpoint = TokenData ''fresh'' 1799,
      search_endpoint = (\<lambda>t ps. Response \<lparr>status_code = st, http_error_text = e, body = b\<rparr>)\<rparr>"

definition quiet_world :: world where
  "quiet_world = provider 200 [] (JsonObject (Some []) ''{}'')"

definition offers_world :: world where
  "offers_world = provider 200 [] (JsonObject (Some sample_offers) ''{}'')"

definition one_way_world :: world where
  "one_way_world = provider 200 [] (JsonObject (Some one_way_offers) ''{}'')"

definition unauthorized_json_world :: world where
  "unauthorized_json_world = provider 401 ''401 Client Error'' (JsonObject None ''{}'')"

definition unauthorized_text_world :: world where
  "unauthorized_text_world = provider 401 ''401 Client Error'' (NotJson ''Expecting value'')"

section \<open>Properties\<close>

lemmas date_defs = date_add_days_def ymd2ord_def ord2ymd_def month_of_def preceding_of_def days_before_year_def
  days_before_month_def DAYS_BEFORE_MONTH_def DAYS_IN_MONTH_def DI400Y_def DI100Y_def DI4Y_def
  MAXORDINAL_def is_leap_def strftime_def str_nat.simps pad2_def pad4_def digit_char_def
  py_int_def MAX_STR_DIGITS_def Let_def

lemmas pattern_defs = re_match_days_def is_digit_def is_space_def ci_eq_def

lemmas strptime_defs = strptime_def parse_month_def parse_day_def days_in_month_def
  int_of_digits_def digit_val_def is_digit_def

lemmas world_defs = provider_def quiet_world_def offers_world_def one_way_world_def
  unauthorized_json_world_def unauthorized_text_world_def cached_def expiring_def no_credential_def


subsection \<open>Auxiliary facts\<close>

text \<open>Python's \<^verbatim>\<open>min\<close> returns the first element of least key.\<close>

lemma min_loop_first:
  assumes "\<forall>x\<in>set xs. key x = Some (f x)"
  shows "\<exists>m. min_loop key best bv xs = Some m \<and>
           ((m = best \<and> (\<forall>x\<in>set xs. bv \<le> f x)) \<or>
            (\<exists>i<length xs. m = xs ! i \<and> f (xs ! i) < bv \<and>
               (\<forall>j<i. f (xs ! i) < f (xs ! j)) \<and> (\<forall>x\<in>set xs. f (xs ! i) \<le> f x)))"
  using assms
proof (induction xs arbitrary: best bv)
  case Nil
  then show ?case by simp
next
  case (Cons x xs)
  have kx: "key x = Some (f x)" and rest: "\<forall>y\<in>set xs. key y = Some (f y)"
    using Cons.prems by simp_all
  show ?case
  proof (cases "f x < bv")
    case True
    from Cons.IH[OF rest, of x "f x"] obtain m where
      m: "min_loop key x (f x) xs = Some m" and
      alt: "(m = x \<and> (\<forall>y\<in>set xs. f x \<le> f y)) \<or>
            (\<exists>i<length xs. m = xs ! i \<and> f (xs ! i) < f x \<and>
               (\<forall>j<i. f (xs ! i) < f (xs ! j)) \<and> (\<forall>y\<in>set xs. f (xs ! i) \<le> f y))"
      by blast
    have run: "min_loop key best bv (x # xs) = Some m" using kx True m by simp
    from alt show ?thesis
    proof
      assume a: "m = x \<and> (\<forall>y\<in>set xs. f x \<le> f y)"
      have "0 < length (x # xs) \<and> m = (x # xs) ! 0 \<and> f ((x # xs) ! 0) < bv \<and>
            (\<forall>j<0. f ((x # xs) ! 0) < f ((x # xs) ! j)) \<and> (\<forall>y\<in>set (x # xs). f ((x # xs) ! 0) \<le> f y)"
        using a True by simp
      then show ?thesis using run by blast
    next
      assume "\<exists>i<length xs. m = xs ! i \<and> f (xs ! i) < f x \<and>
               (\<forall>j<i. f (xs ! i) < f (xs ! j)) \<and> (\<forall>y\<in>set xs. f (xs ! i) \<le> f y)"
      then obtain i where i: "i < length xs" "m = xs ! i" "f (xs ! i) < f x"
        "\<forall>j<i. f (xs ! i) < f (xs ! j)" "\<forall>y\<in>set xs. f (xs ! i) \<le> f y" by blast
      have earlier: "\<forall>j<Suc i. f ((x # xs) ! Suc i) < f ((x # xs) ! j)"
      proof (intro allI impI)
        fix j assume "j < Suc i"
        then show "f ((x # xs) ! Suc i) < f ((x # xs) ! j)"
          using i(3,4) by (cases j) simp_all
      qed
      have "Suc i < length (x # xs) \<and> m = (x # xs) ! Suc i \<and> f ((x # xs) ! Suc i) < bv \<and>
            (\<forall>y\<in>set (x # xs). f ((x # xs) ! Suc i) \<le> f y)"
        using i True by auto
      with earlier run show ?thesis by blast
    qed
  next
    case False
    from Cons.IH[OF rest, of best bv] obtain m where
      m: "min_loop key best bv xs = Some m" and
      alt: "(m = best \<and> (\<forall>y\<in>set xs. bv \<le> f y)) \<or>
            (\<exists>i<length xs. m = xs ! i \<and> f (xs ! i) < bv \<and>
               (\<forall>j<i. f (xs ! i) < f (xs ! j)) \<and> (\<forall>y\<in>set xs. f (xs ! i) \<le> f y))"
      by blast
    have run: "min_loop key best bv (x # xs) = Some m" using kx False m by simp
    from alt show ?thesis
    proof
      assume "m = best \<and> (\<forall>y\<in>set xs. bv \<le> f y)"
      then show ?thesis using run False by auto
    next
      assume "\<exists>i<length xs. m = xs ! i \<and> f (xs ! i) < bv \<and>
               (\<forall>j<i. f (xs ! i) < f (xs ! j)) \<and> (\<forall>y\<in>set xs. f (xs ! i) \<le> f y)"
      then obtain i where i: "i < length xs" "m = xs ! i" "f (xs ! i) < bv"
        "\<forall>j<i. f (xs ! i) < f (xs ! j)" "\<forall>y\<in>set xs. f (xs ! i) \<le> f y" by blast
      have earlier: "\<forall>j<Suc i. f ((x # xs) ! Suc i) < f ((x # xs) ! j)"
      proof (intro allI impI)
        fix j assume "j < Suc i"
        then show "f ((x # xs) ! Suc i) < f ((x # xs) ! j)"
          using i(3,4) False by (cases j) auto
      qed
      have "Suc i < length (x # xs) \<and> m = (x # xs) ! Suc i \<and> f ((x # xs) ! Suc i) < bv \<and>
            (\<forall>y\<in>set (x # xs). f ((x # xs) ! Suc i) \<le> f y)"
        using i False by auto
      with earlier run show ?thesis by blast
    qed
  qed
qed

lemma py_min_first:
  assumes "xs \<noteq> []" "\<forall>x\<in>set xs. key x = Some (f x)"
  shows "\<exists>i<length xs. py_min key xs = Some (xs ! i) \<and>
           (\<forall>j<i. f (xs ! i) < f (xs ! j)) \<and> (\<forall>x\<in>set xs. f (xs ! i) \<le> f x)"
proof -
  from assms(1) obtain x rest where xs: "xs = x # rest" by (cases xs) auto
  have kx: "key x = Some (f x)" and rest: "\<forall>y\<in>set rest. key y = Some (f y)"
    using assms(2) xs by simp_all
  from min_loop_first[OF rest, of x "f x"] obtain m where
    m: "min_loop key x (f x) rest = Some m" and
    alt: "(m = x \<and> (\<forall>y\<in>set rest. f x \<le> f y)) \<or>
          (\<exists>i<length rest. m = rest ! i \<and> f (rest ! i) < f x \<and>
             (\<forall>j<i. f (rest ! i) < f (rest ! j)) \<and> (\<forall>y\<in>set rest. f (rest ! i) \<le> f y))"
    by blast
  have run: "py_min key xs = Some m" using xs kx m by (simp add: py_min_def)
  from alt show ?thesis
  proof
    assume a: "m = x \<and> (\<forall>y\<in>set rest. f x \<le> f y)"
    have "0 < length xs \<and> py_min key xs = Some (xs ! 0) \<and>
          (\<forall>j<0. f (xs ! 0) < f (xs ! j)) \<and> (\<forall>y\<in>set xs. f (xs ! 0) \<le> f y)"
      using a run xs by simp
    then show ?thesis by blast
  next
    assume "\<exists>i<length rest. m = rest ! i \<and> f (rest ! i) < f x \<and>
             (\<forall>j<i. f (rest ! i) < f (rest ! j)) \<and> (\<forall>y\<in>set rest. f (rest ! i) \<le> f y)"
    then obtain i where i: "i < length rest" "m = rest ! i" "f (rest ! i) < f x"
      "\<forall>j<i. f (rest ! i) < f (rest ! j)" "\<forall>y\<in>set rest. f (rest ! i) \<le> f y" by blast
    have earlier: "\<forall>j<Suc i. f (xs ! Suc i) < f (xs ! j)"
    proof (intro allI impI)
      fix j assume "j < Suc i"
      then show "f (xs ! Suc i) < f (xs ! j)"
        using i(3,4) xs by (cases j) auto
    qed
    have "Suc i < length xs \<and> py_min key xs = Some (xs ! Suc i) \<and>
          (\<forall>y\<in>set xs. f (xs ! Suc i) \<le> f y)"
      using i run xs by auto
    with earlier show ?thesis by blast
  qed
qed

text \<open>The shape of a run of the handler.\<close>

lemma search_made:
  assumes "SearchRequest t ps \<in> set (calls (get_flight_price pfloat w c origin destination departure_date duration))"
  shows "\<exists>rd. compute_return_date departure_date duration = Inr rd \<and>
              ps = build_params origin destination departure_date rd \<and>
              t = token (cred (get_flight_price pfloat w c origin destination departure_date duration)) \<and>
              answer (get_flight_price pfloat w c origin destination departure_date duration) =
                handle_reply pfloat duration ps (search_endpoint w t ps)"
  using assms
  by (auto simp: get_flight_price_def Let_def split: sum.splits if_splits)

lemma calls_shape:
  assumes "SearchRequest t ps \<in> set (calls (get_flight_price pfloat w c origin destination departure_date duration))"
  shows "calls (get_flight_price pfloat w c origin destination departure_date duration) =
           (if is_token_valid c (now_check w) then [] else [TokenRequest]) @ [SearchRequest t ps]"
  using assms
  by (auto simp: get_flight_price_def Let_def split: sum.splits if_splits)

lemma success_needs_search:
  assumes "answer (get_flight_price pfloat w c origin destination departure_date duration) = Inr res"
  shows "\<exists>t ps. SearchRequest t ps \<in> set (calls (get_flight_price pfloat w c origin destination departure_date duration))"
  using assms
  by (auto simp: get_flight_price_def Let_def split: sum.splits if_splits)

lemma token_request_iff:
  "TokenRequest \<in> set (calls (get_flight_price pfloat w c origin destination departure_date duration))
     \<longleftrightarrow> \<not> is_token_valid c (now_check w)"
  by (auto simp: get_flight_price_def Let_def split: sum.splits if_splits)



lemma return_date_present:
  assumes "compute_return_date departure_date duration = Inr rd"
  shows "truthy duration \<longleftrightarrow> rd \<noteq> None"
  using assms
  by (auto simp: compute_return_date_def truthy_def Let_def split: option.splits if_splits)

lemma shape_offers_payload:
  assumes "shape_offers pfloat duration ps offers = Inr (Payload p)"
  shows "\<exists>ch it0 its price.
           offers \<noteq> [] \<and> cheapest_offer pfloat offers = Some ch \<and> itineraries ch = it0 # its \<and>
           pfloat (grandTotal ch) = Some price \<and>
           journey_type p = (if truthy duration then ''two-way'' else ''one-way'') \<and>
           total_price_in_inr p = price \<and>
           outbound_journey p = parse_itinerary_details it0 \<and>
           return_journey p =
             (if truthy duration \<and> its \<noteq> [] then Some (parse_itinerary_details (hd its)) else None) \<and>
           return_date p = (if truthy duration \<and> its \<noteq> [] then returnDate ps else None)"
proof -
  from assms have ne: "offers \<noteq> []"
    by (auto simp: shape_offers_def)
  from assms ne obtain ch where ch: "cheapest_offer pfloat offers = Some ch"
    by (auto simp: shape_offers_def split: option.splits)
  from assms ne ch obtain it0 its where its: "itineraries ch = it0 # its"
    by (auto simp: shape_offers_def split: list.splits)
  from assms ne ch its obtain price where price: "pfloat (grandTotal ch) = Some price"
    by (auto simp: shape_offers_def split: option.splits)
  have second: "its \<noteq> [] \<Longrightarrow> (it0 # its) ! 1 = hd its"
    by (cases its) simp_all
  from assms ne ch its price second
  have "journey_type p = (if truthy duration then ''two-way'' else ''one-way'') \<and>
        total_price_in_inr p = price \<and>
        outbound_journey p = parse_itinerary_details it0 \<and>
        return_journey p =
          (if truthy duration \<and> its \<noteq> [] then Some (parse_itinerary_details (hd its)) else None) \<and>
        return_date p = (if truthy duration \<and> its \<noteq> [] then returnDate ps else None)"
    by (auto simp: shape_offers_def Let_def split: if_splits)
  with ne ch its price show ?thesis by blast
qed

lemma handle_reply_payload:
  assumes "handle_reply pfloat duration ps reply = Inr (Payload p)"
  shows "\<exists>r offers txt. reply = Response r \<and> \<not> raises_for_status r \<and>
           body r = JsonObject (Some offers) txt \<and>
           shape_offers pfloat duration ps offers = Inr (Payload p)"
  using assms
  by (auto simp: handle_reply_def shape_offers_def split: search_reply.splits json_body.splits option.splits if_splits)

lemma payload_origin:
  assumes "answer (get_flight_price pfloat w c origin destination departure_date duration) = Inr (Payload p)"
  shows "\<exists>t ps r offers txt ch it0 its.
           calls (get_flight_price pfloat w c origin destination departure_date duration)
             = (if is_token_valid c (now_check w) then [] else [TokenRequest]) @ [SearchRequest t ps] \<and>
           search_endpoint w t ps = Response r \<and>
           body r = JsonObject (Some offers) txt \<and>
           cheapest_offer pfloat offers = Some ch \<and>
           itineraries ch = it0 # its \<and>
           (truthy duration \<longleftrightarrow> returnDate ps \<noteq> None) \<and>
           journey_type p = (if truthy duration then ''two-way'' else ''one-way'') \<and>
           outbound_journey p = parse_itinerary_details it0 \<and>
           return_journey p =
             (if truthy duration \<and> its \<noteq> [] then Some (parse_itinerary_details (hd its)) else None) \<and>
           return_date p = (if truthy duration \<and> its \<noteq> [] then returnDate ps else None)"
proof -
  from success_needs_search[OF assms] obtain t ps where
    sent: "SearchRequest t ps \<in> set (calls (get_flight_price pfloat w c origin destination departure_date duration))"
    by blast
  from search_made[OF sent] obtain rd where
    rd: "compute_return_date departure_date duration = Inr rd" and
    ps: "ps = build_params origin destination departure_date rd" and
    ans: "answer (get_flight_price pfloat w c origin destination departure_date duration) =
            handle_reply pfloat duration ps (search_endpoint w t ps)"
    by blast
  from assms ans have "handle_reply pfloat duration ps (search_endpoint w t ps) = Inr (Payload p)"
    by simp
  from handle_reply_payload[OF this] obtain r offers js where
    r: "search_endpoint w t ps = Response r" "body r = JsonObject (Some offers) js" and
    sh: "shape_offers pfloat duration ps offers = Inr (Payload p)"
    by blast
  from shape_offers_payload[OF sh] obtain ch it0 its where
    ch: "cheapest_offer pfloat offers = Some ch" "itineraries ch = it0 # its"
      "journey_type p = (if truthy duration then ''two-way'' else ''one-way'')"
      "outbound_journey p = parse_itinerary_details it0"
      "return_journey p =
         (if truthy duration \<and> its \<noteq> [] then Some (parse_itinerary_details (hd its)) else None)"
      "return_date p = (if truthy duration \<and> its \<noteq> [] then returnDate ps else None)"
    by blast
  have present: "truthy duration \<longleftrightarrow> returnDate ps \<noteq> None"
    using return_date_present[OF rd] ps by (simp add: build_params_def)
  from calls_shape[OF sent] r ch present show ?thesis by blast
qed
































text \<open>A run of the date computation.\<close>

lemma sample_return_date:
  "compute_return_date ''2025-01-10'' (Some ''3 days'') = Inr (Some ''2025-01-13'')"
  by (simp add: compute_return_date_def pattern_defs strptime_defs date_defs)

subsection \<open>Selection of the cheapest offer\<close>

text \<open>
  Claim C1. When the search call is answered with a non-empty list of offers whose
  prices \<^verbatim>\<open>float\<close> accepts, the selected offer is the one of least price, and among
  offers of equal least price the first in the provider's order: every offer before
  it is strictly dearer. The payload is built from that offer and its total price is
  that least price. (An offer without any itinerary makes line 136 raise
  \<^verbatim>\<open>IndexError\<close>.) For offers priced 500, 250 and 999 the offer priced 250 is selected.
\<close>

theorem cheapest_offer_selected:
  assumes "SearchRequest t ps \<in> set (calls (get_flight_price pfloat w c origin destination departure_date duration))"
    and "search_endpoint w t ps = Response r"
    and "\<not> raises_for_status r"
    and "body r = JsonObject (Some offers) txt"
    and "offers \<noteq> []"
    and "\<forall>x\<in>set offers. pfloat (grandTotal x) = Some (price x)"
  shows "\<exists>i<length offers.
           cheapest_offer pfloat offers = Some (offers ! i) \<and>
           (\<forall>x\<in>set offers. price (offers ! i) \<le> price x) \<and>
           (\<forall>j<i. price (offers ! i) < price (offers ! j)) \<and>
           (case itineraries (offers ! i) of
              [] \<Rightarrow> answer (get_flight_price pfloat w c origin destination departure_date duration)
                      = Inl (Unhandled IndexError)
            | it0 # _ \<Rightarrow>
                (\<exists>p. answer (get_flight_price pfloat w c origin destination departure_date duration)
                        = Inr (Payload p) \<and>
                     total_price_in_inr p = price (offers ! i) \<and>
                     outbound_journey p = parse_itinerary_details it0))"
proof -
  from py_min_first[of offers "\<lambda>x. pfloat (grandTotal x)" price, OF assms(5,6)]
  obtain i where i: "i < length offers"
    and sel: "cheapest_offer pfloat offers = Some (offers ! i)"
    and first: "\<forall>j<i. price (offers ! i) < price (offers ! j)"
    and least: "\<forall>x\<in>set offers. price (offers ! i) \<le> price x"
    unfolding cheapest_offer_def by blast
  have pr: "pfloat (grandTotal (offers ! i)) = Some (price (offers ! i))"
    using assms(6) i by simp
  from search_made[OF assms(1)]
  have "answer (get_flight_price pfloat w c origin destination departure_date duration) =
          handle_reply pfloat duration ps (search_endpoint w t ps)" by blast
  also have "\<dots> = shape_offers pfloat duration ps offers"
    using assms(2-4) by (simp add: handle_reply_def)
  finally have ans: "answer (get_flight_price pfloat w c origin destination departure_date duration) =
          shape_offers pfloat duration ps offers" .
  have "case itineraries (offers ! i) of
              [] \<Rightarrow> answer (get_flight_price pfloat w c origin destination departure_date duration)
                      = Inl (Unhandled IndexError)
            | it0 # _ \<Rightarrow>
                (\<exists>p. answer (get_flight_price pfloat w c origin destination departure_date duration)
                        = Inr (Payload p) \<and>
                     total_price_in_inr p = price (offers ! i) \<and>
                     outbound_journey p = parse_itinerary_details it0)"
    unfolding ans using assms(5) sel pr
    by (auto simp: shape_offers_def Let_def split: list.splits)
  with i sel first least show ?thesis by blast
qed

theorem cheapest_offer_selected_witness:
  "(\<exists>i<length sample_offers.
      cheapest_offer whole_price sample_offers = Some (sample_offers ! i) \<and>
      (\<forall>x\<in>set sample_offers.
         int_of_digits (grandTotal (sample_offers ! i)) \<le> int_of_digits (grandTotal x)) \<and>
      (\<forall>j<i. int_of_digits (grandTotal (sample_offers ! i))
                 < int_of_digits (grandTotal (sample_offers ! j))) \<and>
      (case itineraries (sample_offers ! i) of
         [] \<Rightarrow> answer (get_flight_price whole_price offers_world cached
                          ''DEL'' ''BOM'' ''2025-01-10'' None) = Inl (Unhandled IndexError)
       | it0 # _ \<Rightarrow>
           (\<exists>p. answer (get_flight_price whole_price offers_world cached
                          ''DEL'' ''BOM'' ''2025-01-10'' None) = Inr (Payload p) \<and>
                total_price_in_inr p = int_of_digits (grandTotal (sample_offers ! i)) \<and>
                outbound_journey p = parse_itinerary_details it0)))
   \<and> cheapest_offer whole_price sample_offers = Some (sample_offers ! 1)
   \<and> grandTotal (sample_offers ! 1) = ''250''
   \<and> answer (get_flight_price whole_price offers_world cached ''DEL'' ''BOM'' ''2025-01-10'' None)
       = Inr (Payload \<lparr>journey_type = ''one-way'', total_price_in_inr = 250,
                       outbound_journey = parse_itinerary_details (leg ''DEL'' ''BOM'' ''2025-01-10''),
                       return_journey = None, return_date = None\<rparr>)"
proof -
  let ?ps = "build_params ''DEL'' ''BOM'' ''2025-01-10'' None"
  let ?r = "\<lparr>status_code = 200, http_error_text = [], body = JsonObject (Some sample_offers) ''{}''\<rparr>"
  have sent: "SearchRequest ''abc'' ?ps \<in> set (calls (get_flight_price whole_price offers_world cached
                 ''DEL'' ''BOM'' ''2025-01-10'' None))"
    by (simp add: get_flight_price_def is_token_valid_def compute_return_date_def world_defs Let_def)
  have reply: "search_endpoint offers_world ''abc'' ?ps = Response ?r"
    by (simp add: world_defs)
  have status: "\<not> raises_for_status ?r"
    by (simp add: raises_for_status_def)
  have body: "body ?r = JsonObject (Some sample_offers) ''{}''"
    by simp
  have ne: "sample_offers \<noteq> []"
    by (simp add: sample_offers_def)
  have prices: "\<forall>x\<in>set sample_offers. whole_price (grandTotal x) = Some (int_of_digits (grandTotal x))"
    by (simp add: sample_offers_def whole_price_def is_digit_def)
  have sel: "cheapest_offer whole_price sample_offers = Some (sample_offers ! 1)"
    by (simp add: cheapest_offer_def py_min_def sample_offers_def whole_price_def is_digit_def
          int_of_digits_def digit_val_def)
  have total: "grandTotal (sample_offers ! 1) = ''250''"
    by (simp add: sample_offers_def)
  have ans: "answer (get_flight_price whole_price offers_world cached ''DEL'' ''BOM'' ''2025-01-10'' None)
       = Inr (Payload \<lparr>journey_type = ''one-way'', total_price_in_inr = 250,
                       outbound_journey = parse_itinerary_details (leg ''DEL'' ''BOM'' ''2025-01-10''),
                       return_journey = None, return_date = None\<rparr>)"
    by (simp add: get_flight_price_def is_token_valid_def compute_return_date_def world_defs
          handle_reply_def raises_for_status_def shape_offers_def sel truthy_def Let_def)
       (simp add: sample_offers_def whole_price_def is_digit_def int_of_digits_def digit_val_def
          truthy_def Let_def)
  from cheapest_offer_selected [OF sent reply status body ne prices] sel total ans
  show ?thesis by blast
qed

subsection \<open>Malformed durations\<close>




subsection \<open>The return date of the query\<close>




subsection \<open>Token refresh\<close>

text \<open>
  Claim C4. A request performs the token refresh exactly when the cached credential is
  not valid, and the credential is valid exactly when the token is non-empty and its
  expiry lies more than five minutes after the current time. A token that expires in
  ten minutes does not trigger a refresh.
\<close>

theorem refresh_iff_credential_invalid:
  "(TokenRequest \<in> set (calls (get_flight_price pfloat w c origin destination departure_date duration)))
     = (\<not> (token c \<noteq> [] \<and> (\<exists>e. token_expiry c = Some e \<and> e - now_check w > 5 * 60 * 1000000)))"
proof -
  have valid: "is_token_valid c (now_check w)
          = (token c \<noteq> [] \<and> (\<exists>e. token_expiry c = Some e \<and> e - now_check w > 5 * 60 * 1000000))"
    by (auto simp: is_token_valid_def split: option.splits)
  show ?thesis unfolding token_request_iff valid by (rule refl)
qed

theorem refresh_iff_credential_invalid_witness:
  "TokenRequest \<notin> set (calls (get_flight_price whole_price quiet_world cached
       ''DEL'' ''BOM'' ''2025-01-10'' None))
   \<and> TokenRequest \<in> set (calls (get_flight_price whole_price quiet_world expiring
       ''DEL'' ''BOM'' ''2025-01-10'' None))
   \<and> TokenRequest \<in> set (calls (get_flight_price whole_price quiet_world no_credential
       ''DEL'' ''BOM'' ''2025-01-10'' None))"
  using refresh_iff_credential_invalid [of whole_price quiet_world cached
          "''DEL''" "''BOM''" "''2025-01-10''" None]
        refresh_iff_credential_invalid [of whole_price quiet_world expiring
          "''DEL''" "''BOM''" "''2025-01-10''" None]
        refresh_iff_credential_invalid [of whole_price quiet_world no_credential
          "''DEL''" "''BOM''" "''2025-01-10''" None]
  by (simp add: world_defs)

subsection \<open>Journey type and return fields\<close>

text \<open>
  Claim C5, as amended. In every successful result with a payload, the journey type is
  two-way exactly when a non-empty duration was given, whatever the number of
  itineraries of the winning offer. Without a duration, or with an empty one, the
  journey type is one-way and the payload has neither return journey nor return date.
  With a non-empty duration and a winning offer of one itinerary the two return fields
  are absent as well.
\<close>

theorem journey_type_follows_duration:
  assumes "answer (get_flight_price pfloat w c origin destination departure_date duration) = Inr (Payload p)"
  shows "(journey_type p = ''two-way'' \<longleftrightarrow> truthy duration) \<and>
         (journey_type p = ''one-way'' \<longleftrightarrow> \<not> truthy duration) \<and>
         (\<not> truthy duration \<longrightarrow> return_journey p = None \<and> return_date p = None) \<and>
         (\<exists>t ps r offers txt ch.
            SearchRequest t ps \<in> set (calls (get_flight_price pfloat w c origin destination departure_date duration)) \<and>
            search_endpoint w t ps = Response r \<and>
            body r = JsonObject (Some offers) txt \<and>
            cheapest_offer pfloat offers = Some ch \<and>
            (length (itineraries ch) = 1 \<longrightarrow> return_journey p = None \<and> return_date p = None) \<and>
            (truthy duration \<and> length (itineraries ch) > 1 \<longrightarrow>
               return_journey p \<noteq> None \<and> return_date p \<noteq> None))"
proof -
  from payload_origin[OF assms] obtain t ps r offers js ch it0 its where
    f: "calls (get_flight_price pfloat w c origin destination departure_date duration)
             = (if is_token_valid c (now_check w) then [] else [TokenRequest]) @ [SearchRequest t ps]"
       "search_endpoint w t ps = Response r"
       "body r = JsonObject (Some offers) js"
       "cheapest_offer pfloat offers = Some ch"
       "itineraries ch = it0 # its"
       "truthy duration \<longleftrightarrow> returnDate ps \<noteq> None"
       "journey_type p = (if truthy duration then ''two-way'' else ''one-way'')"
       "return_journey p =
         (if truthy duration \<and> its \<noteq> [] then Some (parse_itinerary_details (hd its)) else None)"
       "return_date p = (if truthy duration \<and> its \<noteq> [] then returnDate ps else None)"
    by blast
  have sent: "SearchRequest t ps \<in> set (calls (get_flight_price pfloat w c origin destination departure_date duration))"
    using f(1) by simp
  have jt: "(journey_type p = ''two-way'' \<longleftrightarrow> truthy duration) \<and>
            (journey_type p = ''one-way'' \<longleftrightarrow> \<not> truthy duration)"
    using f(7) by simp
  have ow: "\<not> truthy duration \<longrightarrow> return_journey p = None \<and> return_date p = None"
    using f(8,9) by simp
  have single: "length (itineraries ch) = 1 \<longrightarrow> return_journey p = None \<and> return_date p = None"
    using f(5,8,9) by simp
  have both: "truthy duration \<and> length (itineraries ch) > 1 \<longrightarrow>
               return_journey p \<noteq> None \<and> return_date p \<noteq> None"
    using f(5,6,8,9) by auto
  from jt ow sent f(2,3,4) single both show ?thesis by blast
qed

theorem journey_type_follows_duration_witness:
  "answer (get_flight_price whole_price one_way_world cached ''DEL'' ''BOM'' ''2025-01-10'' (Some ''3 days''))
     = Inr (Payload \<lparr>journey_type = ''two-way'', total_price_in_inr = 700,
                     outbound_journey = parse_itinerary_details (leg ''DEL'' ''BOM'' ''2025-01-10''),
                     return_journey = None, return_date = None\<rparr>)
   \<and> truthy (Some ''3 days'')
   \<and> answer (get_flight_price whole_price offers_world cached ''DEL'' ''BOM'' ''2025-01-10'' None)
     = Inr (Payload \<lparr>journey_type = ''one-way'', total_price_in_inr = 250,
                     outbound_journey = parse_itinerary_details (leg ''DEL'' ''BOM'' ''2025-01-10''),
                     return_journey = None, return_date = None\<rparr>)
   \<and> \<not> truthy None"
proof -
  let ?two = "\<lparr>journey_type = ''two-way'', total_price_in_inr = 700 :: nat,
                outbound_journey = parse_itinerary_details (leg ''DEL'' ''BOM'' ''2025-01-10''),
                return_journey = None, return_date = None\<rparr>"
  let ?one = "\<lparr>journey_type = ''one-way'', total_price_in_inr = 250 :: nat,
                outbound_journey = parse_itinerary_details (leg ''DEL'' ''BOM'' ''2025-01-10''),
                return_journey = None, return_date = None\<rparr>"
  have a: "answer (get_flight_price whole_price one_way_world cached
                     ''DEL'' ''BOM'' ''2025-01-10'' (Some ''3 days'')) = Inr (Payload ?two)"
    by (simp add: get_flight_price_def is_token_valid_def sample_return_date world_defs
          handle_reply_def raises_for_status_def shape_offers_def cheapest_offer_def py_min_def
          one_way_offers_def whole_price_def is_digit_def int_of_digits_def digit_val_def
          truthy_def Let_def)
  have b: "answer (get_flight_price whole_price offers_world cached
                     ''DEL'' ''BOM'' ''2025-01-10'' None) = Inr (Payload ?one)"
    by (simp add: get_flight_price_def is_token_valid_def compute_return_date_def world_defs
          handle_reply_def raises_for_status_def shape_offers_def cheapest_offer_def py_min_def
          sample_offers_def whole_price_def is_digit_def int_of_digits_def digit_val_def
          truthy_def Let_def)
  from journey_type_follows_duration [OF a] journey_type_follows_duration [OF b] a b
  show ?thesis by simp
qed

text \<open>
  The claim as stated fails for a duration that is supplied but empty: the handler
  treats it as no duration, and the journey type is one-way.
\<close>

theorem empty_duration_one_way_counterexample:
  "answer (get_flight_price whole_price offers_world cached ''DEL'' ''BOM'' ''2025-01-10'' (Some []))
     = Inr (Payload \<lparr>journey_type = ''one-way'', total_price_in_inr = 250,
                     outbound_journey = parse_itinerary_details (leg ''DEL'' ''BOM'' ''2025-01-10''),
                     return_journey = None, return_date = None\<rparr>)"
  by (simp add: get_flight_price_def is_token_valid_def compute_return_date_def world_defs
        handle_reply_def raises_for_status_def shape_offers_def cheapest_offer_def py_min_def
        sample_offers_def whole_price_def is_digit_def int_of_digits_def digit_val_def
        truthy_def Let_def)

subsection \<open>Classification of provider errors\<close>

text \<open>
  Claim C6, as amended. When the search call is answered with an error status (400 to
  599) and a JSON body, the failure carries the provider's status code, and its detail
  is chosen by that code: 400 gives the bad-request text with the provider's error
  body, 401 the authentication text, 404 the not-found text, any other code the
  generic text with the text of the original error. When the body of the error
  response is not JSON, the failure has status 500 and the text of the original error,
  whatever the provider's status code was.
\<close>

theorem provider_error_classified:
  assumes "SearchRequest t ps \<in> set (calls (get_flight_price pfloat w c origin destination departure_date duration))"
    and "search_endpoint w t ps = Response r"
    and "raises_for_status r"
  shows "(\<forall>data error_json. body r = JsonObject data error_json \<longrightarrow>
            (status_code r = 400 \<longrightarrow>
               answer (get_flight_price pfloat w c origin destination departure_date duration) =
                 Inl (HTTPException 400 (Text
                   (''Bad request to Amadeus API. Please check your parameters. Error: '' @ error_json)))) \<and>
            (status_code r = 401 \<longrightarrow>
               answer (get_flight_price pfloat w c origin destination departure_date duration) =
                 Inl (HTTPException 401 (Text
                   ''Amadeus authentication failed. Please check your API key and secret.''))) \<and>
            (status_code r = 404 \<longrightarrow>
               answer (get_flight_price pfloat w c origin destination departure_date duration) =
                 Inl (HTTPException 404 (Text
                   ''The requested resource was not found on the Amadeus API.''))) \<and>
            (status_code r \<notin> {400, 401, 404} \<longrightarrow>
               answer (get_flight_price pfloat w c origin destination departure_date duration) =
                 Inl (HTTPException (status_code r) (Text
                   (''An error occurred while fetching flight data: '' @ http_error_text r))))) \<and>
         (\<forall>u. body r = NotJson u \<longrightarrow>
            answer (get_flight_price pfloat w c origin destination departure_date duration) =
              Inl (HTTPException 500 (Text (http_error_text r))))"
proof -
  from search_made[OF assms(1)]
  have "answer (get_flight_price pfloat w c origin destination departure_date duration) =
          handle_reply pfloat duration ps (search_endpoint w t ps)" by blast
  also have "\<dots> = Inl (classify_error r (http_error_text r))"
    using assms(2,3) by (simp add: handle_reply_def)
  finally have ans: "answer (get_flight_price pfloat w c origin destination departure_date duration) =
          Inl (classify_error r (http_error_text r))" .
  show ?thesis unfolding ans by (simp add: classify_error_def)
qed

theorem provider_error_classified_witness:
  "answer (get_flight_price whole_price unauthorized_json_world cached ''DEL'' ''BOM'' ''2025-01-10'' None)
     = Inl (HTTPException 401 (Text ''Amadeus authentication failed. Please check your API key and secret.''))"
proof -
  let ?ps = "build_params ''DEL'' ''BOM'' ''2025-01-10'' None"
  let ?r = "\<lparr>status_code = 401, http_error_text = ''401 Client Error'', body = JsonObject None ''{}''\<rparr>"
  have sent: "SearchRequest ''abc'' ?ps \<in> set (calls (get_flight_price whole_price unauthorized_json_world
                 cached ''DEL'' ''BOM'' ''2025-01-10'' None))"
    by (simp add: get_flight_price_def is_token_valid_def compute_return_date_def world_defs Let_def)
  have reply: "search_endpoint unauthorized_json_world ''abc'' ?ps = Response ?r"
    by (simp add: world_defs)
  have status: "raises_for_status ?r"
    by (simp add: raises_for_status_def)
  from provider_error_classified [OF sent reply status] show ?thesis by simp
qed

text \<open>
  The claim as stated fails: a 401 response whose body is not JSON reaches the caller
  as status 500 with the text of the original error, not as an authentication failure
  with status 401.
\<close>

theorem unauthorized_text_counterexample:
  "answer (get_flight_price whole_price unauthorized_text_world cached ''DEL'' ''BOM'' ''2025-01-10'' None)
     = Inl (HTTPException 500 (Text ''401 Client Error''))"
  by (simp add: get_flight_price_def is_token_valid_def compute_return_date_def world_defs
        handle_reply_def raises_for_status_def classify_error_def)

subsection \<open>Empty result\<close>

text \<open>
  Claim C7. When the search call is answered by a response without error status whose
  list of offers is empty (or absent), the handler returns the message that no offers
  were found; it does not fail.
\<close>

theorem no_offers_is_success:
  assumes "SearchRequest t ps \<in> set (calls (get_flight_price pfloat w c origin destination departure_date duration))"
    and "search_endpoint w t ps = Response r"
    and "\<not> raises_for_status r"
    and "body r = JsonObject data txt"
    and "data = None \<or> data = Some []"
  shows "answer (get_flight_price pfloat w c origin destination departure_date duration) = Inr (Message NO_OFFERS)"
proof -
  from search_made[OF assms(1)]
  have "answer (get_flight_price pfloat w c origin destination departure_date duration) =
          handle_reply pfloat duration ps (search_endpoint w t ps)" by blast
  also have "\<dots> = Inr (Message NO_OFFERS)"
    using assms(2-5) by (auto simp: handle_reply_def shape_offers_def)
  finally show ?thesis .
qed

theorem no_offers_is_success_witness:
  "answer (get_flight_price whole_price quiet_world cached ''DEL'' ''BOM'' ''2025-01-10'' None)
     = Inr (Message ''No flight offers found for the specified criteria.'')"
proof -
  let ?ps = "build_params ''DEL'' ''BOM'' ''2025-01-10'' None"
  let ?r = "\<lparr>status_code = 200, http_error_text = [], body = JsonObject (Some []) ''{}''\<rparr>"
  have sent: "SearchRequest ''abc'' ?ps \<in> set (calls (get_flight_price whole_price quiet_world
                 cached ''DEL'' ''BOM'' ''2025-01-10'' None))"
    by (simp add: get_flight_price_def is_token_valid_def compute_return_date_def world_defs Let_def)
  have reply: "search_endpoint quiet_world ''abc'' ?ps = Response ?r"
    by (simp add: world_defs)
  have status: "\<not> raises_for_status ?r"
    by (simp add: raises_for_status_def)
  have body: "body ?r = JsonObject (Some []) ''{}''"
    by simp
  have empty: "Some [] = None \<or> Some [] = Some ([] :: offer list)"
    by simp
  from no_offers_is_success [OF sent reply status body empty] show ?thesis
    by (simp add: NO_OFFERS_def)
qed

subsection \<open>A malformed duration and the network\<close>




subsection \<open>The return date of the payload\<close>

text \<open>
  Claim C9. In a successful two-way search whose winning offer has two itineraries,
  the return date of the payload is the return date that was sent to the provider in
  the query of the one search call of the request, and the return journey is built
  from the second itinerary.
\<close>

theorem return_date_echoes_query:
  assumes "answer (get_flight_price pfloat w c origin destination departure_date duration) = Inr (Payload p)"
    and "truthy duration"
  shows "\<exists>t ps r offers txt ch.
           calls (get_flight_price pfloat w c origin destination departure_date duration)
             = (if is_token_valid c (now_check w) then [] else [TokenRequest]) @ [SearchRequest t ps] \<and>
           search_endpoint w t ps = Response r \<and>
           body r = JsonObject (Some offers) txt \<and>
           cheapest_offer pfloat offers = Some ch \<and>
           (length (itineraries ch) > 1 \<longrightarrow>
              return_date p = returnDate ps \<and> returnDate ps \<noteq> None \<and>
              return_journey p = Some (parse_itinerary_details (itineraries ch ! 1)))"
proof -
  from payload_origin[OF assms(1)] obtain t ps r offers js ch it0 its where
    f: "calls (get_flight_price pfloat w c origin destination departure_date duration)
             = (if is_token_valid c (now_check w) then [] else [TokenRequest]) @ [SearchRequest t ps]"
       "search_endpoint w t ps = Response r"
       "body r = JsonObject (Some offers) js"
       "cheapest_offer pfloat offers = Some ch"
       "itineraries ch = it0 # its"
       "truthy duration \<longleftrightarrow> returnDate ps \<noteq> None"
       "return_journey p =
         (if truthy duration \<and> its \<noteq> [] then Some (parse_itinerary_details (hd its)) else None)"
       "return_date p = (if truthy duration \<and> its \<noteq> [] then returnDate ps else None)"
    by blast
  have second: "its \<noteq> [] \<Longrightarrow> (it0 # its) ! 1 = hd its"
    by (cases its) simp_all
  have "length (itineraries ch) > 1 \<longrightarrow>
              return_date p = returnDate ps \<and> returnDate ps \<noteq> None \<and>
              return_journey p = Some (parse_itinerary_details (itineraries ch ! 1))"
    using f(5,6,7,8) assms(2) second by auto
  with f(1,2,3,4) show ?thesis by blast
qed

theorem return_date_echoes_query_witness:
  "calls (get_flight_price whole_price offers_world cached ''DEL'' ''BOM'' ''2025-01-10'' (Some ''3 days''))
     = [SearchRequest ''abc'' (build_params ''DEL'' ''BOM'' ''2025-01-10'' (Some ''2025-01-13''))]
   \<and> answer (get_flight_price whole_price offers_world cached ''DEL'' ''BOM'' ''2025-01-10'' (Some ''3 days''))
     = Inr (Payload \<lparr>journey_type = ''two-way'', total_price_in_inr = 250,
                     outbound_journey = parse_itinerary_details (leg ''DEL'' ''BOM'' ''2025-01-10''),
                     return_journey = Some (parse_itinerary_details (leg ''BOM'' ''DEL'' ''2025-01-13'')),
                     return_date = Some ''2025-01-13''\<rparr>)
   \<and> truthy (Some ''3 days'')"
proof -
  let ?p = "\<lparr>journey_type = ''two-way'', total_price_in_inr = 250 :: nat,
              outbound_journey = parse_itinerary_details (leg ''DEL'' ''BOM'' ''2025-01-10''),
              return_journey = Some (parse_itinerary_details (leg ''BOM'' ''DEL'' ''2025-01-13'')),
              return_date = Some ''2025-01-13''\<rparr>"
  have a: "answer (get_flight_price whole_price offers_world cached
                     ''DEL'' ''BOM'' ''2025-01-10'' (Some ''3 days'')) = Inr (Payload ?p)"
    by (simp add: get_flight_price_def is_token_valid_def sample_return_date world_defs
          handle_reply_def raises_for_status_def shape_offers_def cheapest_offer_def py_min_def
          sample_offers_def whole_price_def is_digit_def int_of_digits_def digit_val_def
          truthy_def build_params_def Let_def)
  have t: "truthy (Some ''3 days'')"
    by (simp add: truthy_def)
  have c: "calls (get_flight_price whole_price offers_world cached
                    ''DEL'' ''BOM'' ''2025-01-10'' (Some ''3 days''))
             = [SearchRequest ''abc'' (build_params ''DEL'' ''BOM'' ''2025-01-10'' (Some ''2025-01-13''))]"
    by (simp add: get_flight_price_def is_token_valid_def sample_return_date world_defs Let_def)
  from return_date_echoes_query [OF a t] a t c show ?thesis by simp
qed

subsection \<open>The credential is changed by the refresh only\<close>

text \<open>
  Claim C10. When the validity check at the start of the request succeeds, the request
  makes no token call and leaves the cached token and its expiry as they were,
  whether it then succeeds or fails.
\<close>

theorem valid_credential_unchanged:
  assumes "is_token_valid c (now_check w)"
  shows "cred (get_flight_price pfloat w c origin destination departure_date duration) = c \<and>
         TokenRequest \<notin> set (calls (get_flight_price pfloat w c origin destination departure_date duration))"
  using assms
  by (simp add: get_flight_price_def Let_def split: sum.splits)

theorem valid_credential_unchanged_witness:
  "is_token_valid cached (now_check unauthorized_text_world) \<and>
   cred (get_flight_price whole_price unauthorized_text_world cached
           ''DEL'' ''BOM'' ''2025-01-10'' (Some ''3 weeks'')) = cached \<and>
   cred (get_flight_price whole_price unauthorized_text_world cached
           ''DEL'' ''BOM'' ''2025-01-10'' None) = cached \<and>
   cred (get_flight_price whole_price offers_world cached
           ''DEL'' ''BOM'' ''2025-01-10'' None) = cached"
proof -
  have v1: "is_token_valid cached (now_check unauthorized_text_world)"
    by (simp add: is_token_valid_def world_defs)
  have v2: "is_token_valid cached (now_check offers_world)"
    by (simp add: is_token_valid_def world_defs)
  from v1 valid_credential_unchanged [OF v1, of whole_price "''DEL''" "''BOM''" "''2025-01-10''" "Some ''3 weeks''"]
       valid_credential_unchanged [OF v1, of whole_price "''DEL''" "''BOM''" "''2025-01-10''" None]
       valid_credential_unchanged [OF v2, of whole_price "''DEL''" "''BOM''" "''2025-01-10''" None]
  show ?thesis by simp
qed

end
